theory Spec2Isabelle
  imports Main "HOL-Library.Word"
begin

unbundle bit_operations_syntax

section \<open>Data model of the glove controller (MIDI_sam5004b.ino)\<close>

text \<open>
  Machine types of the ESP32 target: \<open>byte\<close> is 8 bits, \<open>uint16_t\<close> 16 bits,
  \<open>unsigned long\<close> 32 bits (arithmetic on them wraps around), \<open>int\<close> and \<open>long\<close>
  are 32 bits signed. The velocity computation and the arpeggio cursor stay far inside
  the \<open>int\<close> range and are modelled on \<open>int\<close>.
\<close>

type_synonym byte = "8 word"
type_synonym uint16 = "16 word"
type_synonym ulong = "32 word"

text \<open>
  \<open>currentRoll\<close> is a C \<open>float\<close>. The program only copies it and compares its absolute
  value with the chord-angle threshold, so the model keeps its IEEE-754 binary32 bit
  pattern and decides the comparison on the pattern (see \<open>abs_roll_le_threshold\<close>).
\<close>

type_synonym float_bits = "32 word"

datatype ChordType = MAJOR | MINOR | AUGMENTED | DIMINISHED | SUS4 | SEVENTH

text \<open>\<open>struct Chord\<close>; the field \<open>type\<close> is called \<open>ctype\<close> here.\<close>

record Chord =
  rootNote :: byte
  thirdNote :: byte
  fifthNote :: byte
  seventhNote :: byte
  ctype :: ChordType
  active :: bool
  lastPressTime :: ulong
  notesPlayed :: "bool list"

text \<open>
  What reaches the synthesiser: the three calls made on the \<open>MIDI\<close> object,
  \<open>sendNoteOn(note, velocity, channel)\<close>, \<open>sendNoteOff(note, velocity, channel)\<close> and
  \<open>sendControlChange(controller, value, channel)\<close>, with their byte arguments.
\<close>

datatype midi_event =
    NoteOn byte byte byte
  | NoteOff byte byte byte
  | ControlChange byte byte byte

text \<open>
  The mutable state: the file-level globals (\<open>ARPEGGIO_DELAY\<close>, \<open>lastArpeggioTime\<close>,
  \<open>currentArpeggioStep\<close>, \<open>currentChord\<close>, \<open>comboKeyActive\<close>) and the private fields of
  \<open>class MidiController\<close>. The arrays \<open>pressureData[25]\<close>, \<open>notesActive[7]\<close> and
  \<open>notesPlayed[4]\<close> are lists; a theorem that depends on the length of one says so.
\<close>

record world =
  ARPEGGIO_DELAY :: ulong
  lastArpeggioTime :: ulong
  currentArpeggioStep :: int
  currentChord :: Chord
  comboKeyActive :: bool
  pressureData :: "uint16 list"
  notesActive :: "bool list"
  currentRoll :: float_bits
  sustainActive :: bool

text \<open>The state after static initialisation (lines 20-22, 115, 121, 131-134).\<close>

definition initial_world :: world where
  "initial_world =
     \<lparr> ARPEGGIO_DELAY = 200, lastArpeggioTime = 0, currentArpeggioStep = 0,
       currentChord = \<lparr> rootNote = 0, thirdNote = 0, fifthNote = 0, seventhNote = 0,
                        ctype = MAJOR, active = False, lastPressTime = 0,
                        notesPlayed = replicate 4 False \<rparr>,
       comboKeyActive = False,
       pressureData = replicate 25 0, notesActive = replicate 7 False,
       currentRoll = 0, sustainActive = False \<rparr>"

subsection \<open>Constants and tables\<close>

definition PRESSURE_THRESHOLD :: int where "PRESSURE_THRESHOLD = 50"

definition COMBO_KEY :: nat where "COMBO_KEY = 15"
definition A4_KEY :: nat where "A4_KEY = 1"
definition B4_KEY :: nat where "B4_KEY = 2"

text \<open>\<open>NOTE_MAPPING[] = {C4, D4, E4, F4, G4, A4, B4}\<close>.\<close>

definition NOTE_MAPPING :: "byte list" where
  "NOTE_MAPPING = [60, 62, 64, 65, 67, 69, 71]"

text \<open>\<open>CUSTOM_CHORDS[]\<close>: five single-key chords, then the two combo-key chords.\<close>

definition CUSTOM_CHORDS :: "byte list list" where
  "CUSTOM_CHORDS =
     [ [60, 67, 72, 76],
       [50, 57, 62, 65],
       [52, 59, 64, 67],
       [53, 60, 65, 69],
       [55, 62, 67, 71],
       [57, 64, 69, 72],
       [59, 65, 71, 74] ]"

text \<open>
  \<open>abs(currentRoll) <= CHORD_ANGLE_THRESHOLD\<close> with \<open>CHORD_ANGLE_THRESHOLD = 50\<close>: the
  int threshold is converted to the float \<open>50.0f\<close>, whose pattern is \<open>0x42480000\<close>.
  \<open>abs\<close> is taken on the float and clears the sign bit. Non-negative binary32 values, infinity included, are
  ordered as their patterns read as unsigned integers, and every NaN pattern lies above
  the pattern of infinity, where the comparison is false as it is for a NaN.
\<close>

definition abs_roll_le_threshold :: "float_bits \<Rightarrow> bool" where
  "abs_roll_le_threshold r \<longleftrightarrow> (r AND 0x7FFFFFFF) \<le> 0x42480000"

text \<open>\<open>pressureData[i]\<close> promoted to \<open>int\<close>, as every comparison in the source does.\<close>

definition pressure :: "world \<Rightarrow> nat \<Rightarrow> int" where
  "pressure w i = uint (pressureData w ! i)"

subsection \<open>Actions: a state change together with the MIDI messages sent\<close>

type_synonym action = "world \<Rightarrow> world \<times> midi_event list"

definition skip :: action where
  "skip w = (w, [])"

definition seq :: "action \<Rightarrow> action \<Rightarrow> action" where
  "seq f g w = (case f w of (w1, e1) \<Rightarrow> (case g w1 of (w2, e2) \<Rightarrow> (w2, e1 @ e2)))"

text \<open>A counted \<open>for\<close> loop whose body is an action of the loop index.\<close>

fun for_each :: "nat list \<Rightarrow> (nat \<Rightarrow> action) \<Rightarrow> action" where
  "for_each [] body = skip"
| "for_each (i # rest) body = seq (body i) (for_each rest body)"

section \<open>class MidiController\<close>

definition updateSensorData :: "float_bits \<Rightarrow> uint16 list \<Rightarrow> action" where
  "updateSensorData roll pressures w =
     (w\<lparr> currentRoll := roll, pressureData := take 25 pressures \<rparr>, [])"

definition playNote :: "nat \<Rightarrow> int \<Rightarrow> action" where
  "playNote noteIndex velocity w =
     (if \<not> notesActive w ! noteIndex
      then (w\<lparr> notesActive := (notesActive w)[noteIndex := True] \<rparr>,
            [NoteOn (NOTE_MAPPING ! noteIndex) (word_of_int velocity) 1])
      else (w, []))"

definition releaseNote :: "nat \<Rightarrow> action" where
  "releaseNote noteIndex w =
     (if notesActive w ! noteIndex
      then (w\<lparr> notesActive := (notesActive w)[noteIndex := False] \<rparr>,
            [NoteOff (NOTE_MAPPING ! noteIndex) 0 1])
      else (w, []))"

text \<open>C integer division truncates towards zero.\<close>

definition c_div :: "int \<Rightarrow> int \<Rightarrow> int" where
  "c_div a b = sgn a * sgn b * (\<bar>a\<bar> div \<bar>b\<bar>)"

text \<open>
  Modelled from the spec: \<open>map\<close> is the integer range map of the Arduino core, which is
  not part of the source file. The spec calls it a linear interpolation from
  \<open>[fromLow, fromHigh]\<close> to \<open>[toLow, toHigh]\<close>; on \<open>long\<close> that is
  \<open>(x - in_min) * (out_max - out_min) / (in_max - in_min) + out_min\<close>.
\<close>

definition map_long :: "int \<Rightarrow> int \<Rightarrow> int \<Rightarrow> int \<Rightarrow> int \<Rightarrow> int" where
  "map_long x in_min in_max out_min out_max =
     c_div ((x - in_min) * (out_max - out_min)) (in_max - in_min) + out_min"

definition calculateVelocity :: "nat \<Rightarrow> world \<Rightarrow> int" where
  "calculateVelocity sensorIndex w =
     map_long (min (pressure w sensorIndex) 1000) PRESSURE_THRESHOLD 1000 70 127"

definition updateChordNotes :: action where
  "updateChordNotes w =
     (let c = currentChord w; r = rootNote c in
      (w\<lparr> currentChord :=
          (case ctype c of
             MAJOR \<Rightarrow> c\<lparr> thirdNote := r + 4, fifthNote := r + 7, seventhNote := 0 \<rparr>
           | MINOR \<Rightarrow> c\<lparr> thirdNote := r + 3, fifthNote := r + 7, seventhNote := 0 \<rparr>
           | AUGMENTED \<Rightarrow> c\<lparr> thirdNote := r + 4, fifthNote := r + 8, seventhNote := 0 \<rparr>
           | DIMINISHED \<Rightarrow> c\<lparr> thirdNote := r + 3, fifthNote := r + 6, seventhNote := 0 \<rparr>
           | SUS4 \<Rightarrow> c\<lparr> thirdNote := r + 5, fifthNote := r + 7, seventhNote := 0 \<rparr>
           | SEVENTH \<Rightarrow> c\<lparr> thirdNote := r + 4, fifthNote := r + 7, seventhNote := r + 10 \<rparr>) \<rparr>,
       []))"

definition setChordType :: "ChordType \<Rightarrow> action" where
  "setChordType t w =
     updateChordNotes (w\<lparr> currentChord := (currentChord w)\<lparr> ctype := t \<rparr> \<rparr>)"

text \<open>
  The scan of \<open>stopCurrentChord\<close> for the chord to silence (lines 379-389): with the
  combo latch, channel \<open>A4_KEY\<close> then channel \<open>B4_KEY\<close>; without it, channels 0 to 4
  in ascending order, every nonzero one overwriting \<open>chordIndex\<close>. The result is -1
  when nothing is found.
\<close>

definition stop_chordIndex :: "world \<Rightarrow> int" where
  "stop_chordIndex w =
     (if comboKeyActive w
      then (if pressure w A4_KEY > 0 then 5
            else if pressure w B4_KEY > 0 then 6
            else -1)
      else fold (\<lambda>i chordIndex. if pressure w i > 0 then int i else chordIndex) [0..<5] (-1))"

definition stopCurrentChord :: action where
  "stopCurrentChord w =
     (if active (currentChord w)
      then (let chordIndex = stop_chordIndex w in
            (w\<lparr> currentArpeggioStep := 0,
                currentChord := (currentChord w)\<lparr> active := False \<rparr> \<rparr>,
             (if chordIndex \<ge> 0
              then map (\<lambda>n. NoteOff n 0 1) (CUSTOM_CHORDS ! nat chordIndex)
              else [])))
      else (w, []))"

text \<open>
  The block that starts a chord on root slot \<open>i\<close>; the source has it three times
  (lines 212-219, 228-235 and 255-262). \<open>now\<close> is the value of \<open>millis()\<close>.
\<close>

definition triggerChord :: "nat \<Rightarrow> ulong \<Rightarrow> action" where
  "triggerChord i now w =
     (if \<not> active (currentChord w) \<or> rootNote (currentChord w) \<noteq> NOTE_MAPPING ! i
      then seq stopCurrentChord
             (seq (\<lambda>w. (w\<lparr> currentChord := (currentChord w)\<lparr> rootNote := NOTE_MAPPING ! i \<rparr> \<rparr>, []))
               (seq updateChordNotes
                 (\<lambda>w. (w\<lparr> currentChord := (currentChord w)
                             \<lparr> lastPressTime := now, active := True,
                               notesPlayed := replicate 4 False \<rparr> \<rparr>, [])))) w
      else (w, []))"

definition handleComboNotes :: "ulong \<Rightarrow> action" where
  "handleComboNotes now w =
     (if pressure w A4_KEY > PRESSURE_THRESHOLD
      then (let velocity = calculateVelocity A4_KEY w in
            seq (triggerChord 5 now)
              (seq (playNote 5 velocity)
                (\<lambda>w. if notesActive w ! 1 then releaseNote 1 w else (w, []))) w)
      else if pressure w B4_KEY > PRESSURE_THRESHOLD
      then (let velocity = calculateVelocity B4_KEY w in
            seq (triggerChord 6 now)
              (seq (playNote 6 velocity)
                (\<lambda>w. if notesActive w ! 2 then releaseNote 2 w else (w, []))) w)
      else seq (releaseNote 5)
             (seq (releaseNote 6)
               (\<lambda>w. if active (currentChord w) \<and>
                        (rootNote (currentChord w) = NOTE_MAPPING ! 5 \<or>
                         rootNote (currentChord w) = NOTE_MAPPING ! 6)
                     then stopCurrentChord w else (w, []))) w)"

text \<open>The body of the loop of \<open>handleSingleNotes\<close> for one index.\<close>

definition handleSingleNote :: "ulong \<Rightarrow> nat \<Rightarrow> action" where
  "handleSingleNote now i w =
     (if pressure w i > PRESSURE_THRESHOLD
      then (let velocity = calculateVelocity i w in
            seq (triggerChord i now) (playNote i velocity) w)
      else if notesActive w ! i
      then seq (releaseNote i)
             (\<lambda>w. if active (currentChord w) \<and> rootNote (currentChord w) = NOTE_MAPPING ! i
                   then stopCurrentChord w else (w, [])) w
      else (w, []))"

definition handleSingleNotes :: "ulong \<Rightarrow> action" where
  "handleSingleNotes now = for_each [0..<5] (handleSingleNote now)"

definition checkComboKeys :: "ulong \<Rightarrow> action" where
  "checkComboKeys now w =
     (let newComboState = (pressure w COMBO_KEY > PRESSURE_THRESHOLD) in
      seq (\<lambda>w. if newComboState \<noteq> comboKeyActive w
                then (if \<not> newComboState
                      then seq (releaseNote 5) (releaseNote 6) (w\<lparr> comboKeyActive := newComboState \<rparr>)
                      else (w\<lparr> comboKeyActive := newComboState \<rparr>, []))
                else (w, []))
          (\<lambda>w. if comboKeyActive w then handleComboNotes now w else handleSingleNotes now w) w)"

text \<open>
  The scan of \<open>handleChordPlayback\<close> in single-note mode (lines 327-332): the first
  channel above the threshold, the \<open>break\<close> ending the loop; -1 when there is none.
\<close>

fun first_pressed :: "world \<Rightarrow> nat list \<Rightarrow> int" where
  "first_pressed w [] = -1"
| "first_pressed w (i # rest) =
     (if pressure w i > PRESSURE_THRESHOLD then int i else first_pressed w rest)"

definition playback_chordIndex :: "world \<Rightarrow> int" where
  "playback_chordIndex w =
     (if comboKeyActive w
      then (if pressure w A4_KEY > PRESSURE_THRESHOLD then 5
            else if pressure w B4_KEY > PRESSURE_THRESHOLD then 6
            else -1)
      else first_pressed w [0..<5])"

text \<open>
  \<open>(currentArpeggioStep + 1) % chord.size()\<close> is computed on \<open>size_t\<close>; every chord has
  four notes and 4 divides \<open>2 ^ 32\<close>, so the result is the mathematical remainder.
  \<open>chord[k]\<close> is an unchecked \<open>std::vector\<close> access, defined for \<open>0 \<le> k < 4\<close> only.
\<close>

definition handleChordPlayback :: "ulong \<Rightarrow> action" where
  "handleChordPlayback now w =
     (if \<not> active (currentChord w) \<or> abs_roll_le_threshold (currentRoll w)
      then (w\<lparr> currentArpeggioStep := 0 \<rparr>, [])
      else (let chordIndex = playback_chordIndex w in
            if chordIndex < 0 then stopCurrentChord w
            else (let chord = CUSTOM_CHORDS ! nat chordIndex; step = currentArpeggioStep w in
                  if now - lastArpeggioTime w > ARPEGGIO_DELAY w
                  then (w\<lparr> currentArpeggioStep := (step + 1) mod int (length chord),
                           lastArpeggioTime := now \<rparr>,
                        (if step > 0 then [NoteOff (chord ! nat (step - 1)) 0 1] else []) @
                        [NoteOn (chord ! nat step) 100 1])
                  else (w, []))))"

definition checkSustain :: "ulong \<Rightarrow> action" where
  "checkSustain now w =
     (if \<not> active (currentChord w)
      then (if sustainActive w
            then (w\<lparr> sustainActive := False \<rparr>, [ControlChange 64 0 1])
            else (w, []))
      else (let shouldSustain = (now - lastPressTime (currentChord w) > 300) in
            if shouldSustain \<noteq> sustainActive w
            then (w\<lparr> sustainActive := shouldSustain \<rparr>,
                  [ControlChange 64 (if shouldSustain then 127 else 0) 1])
            else (w, [])))"

text \<open>
  \<open>handleControls\<close>; the calls of \<open>millis()\<close> made during one invocation are taken to
  return one value \<open>now\<close>.
\<close>

definition handleControls :: "ulong \<Rightarrow> action" where
  "handleControls now = seq (checkComboKeys now) (seq (handleChordPlayback now) (checkSustain now))"

definition allNotesOff :: action where
  "allNotesOff =
     seq (for_each [0..<7]
            (\<lambda>i w. if notesActive w ! i
                    then (w\<lparr> notesActive := (notesActive w)[i := False] \<rparr>,
                          [NoteOff (NOTE_MAPPING ! i) 0 1])
                    else (w, [])))
       (seq (\<lambda>w. if sustainActive w
                  then (w\<lparr> sustainActive := False \<rparr>, [ControlChange 64 0 1])
                  else (w, []))
          stopCurrentChord)"

section \<open>The notification callback and the main loop\<close>

text \<open>
  The lambda registered by \<open>BleManager::setupNotifications\<close>; \<open>pData\<close> and \<open>length\<close>
  are the payload as a byte list. The roll is the \<open>float\<close> stored at bytes 6 to 9
  (the ESP32 is little-endian); pressure \<open>i\<close> is the big-endian 16-bit value at bytes
  \<open>14 + 2i\<close> and \<open>15 + 2i\<close>.
\<close>

definition payload_roll :: "byte list \<Rightarrow> float_bits" where
  "payload_roll pData =
     ucast (pData ! 6) OR push_bit 8 (ucast (pData ! 7)) OR
     push_bit 16 (ucast (pData ! 8)) OR push_bit 24 (ucast (pData ! 9))"

definition payload_pressures :: "byte list \<Rightarrow> uint16 list" where
  "payload_pressures pData =
     map (\<lambda>i. push_bit 8 (ucast (pData ! (14 + i * 2))) OR ucast (pData ! (15 + i * 2))) [0..<25]"

text \<open>
  The two calls that end the callback: store the snapshot, then evaluate the controls.
\<close>

definition on_snapshot :: "float_bits \<Rightarrow> uint16 list \<Rightarrow> ulong \<Rightarrow> action" where
  "on_snapshot roll pressures now = seq (updateSensorData roll pressures) (handleControls now)"

definition notify :: "byte list \<Rightarrow> ulong \<Rightarrow> action" where
  "notify pData now w =
     (if length pData < 66 \<or> pData ! 0 \<noteq> 0xAB \<or> pData ! 1 \<noteq> 0xCD then (w, [])
      else on_snapshot (payload_roll pData) (payload_pressures pData) now w)"

text \<open>
  \<open>loop()\<close>. \<open>bleManager.loop()\<close> only drives the BLE connection (scan, connect,
  register the callback above) and calls no method of the controller, so it leaves
  \<open>world\<close> alone. \<open>serial\<close> is \<open>None\<close> when \<open>Serial.available()\<close> is false, otherwise
  the line returned by \<open>readStringUntil\<close>. The replies printed on \<open>Serial\<close> are not MIDI
  output (that is \<open>Serial2\<close>).
\<close>

definition isspace :: "char \<Rightarrow> bool" where
  "isspace c \<longleftrightarrow> (of_char c :: nat) = 32 \<or> (9 \<le> (of_char c :: nat) \<and> (of_char c :: nat) \<le> 13)"

definition trim :: "string \<Rightarrow> string" where
  "trim s = rev (dropWhile isspace (rev (dropWhile isspace s)))"

definition startsWith :: "string \<Rightarrow> string \<Rightarrow> bool" where
  "startsWith s prefix \<longleftrightarrow> take (length prefix) s = prefix"

fun leading_digits :: "string \<Rightarrow> int \<Rightarrow> int" where
  "leading_digits [] acc = acc"
| "leading_digits (c # cs) acc =
     (if 48 \<le> (of_char c :: nat) \<and> (of_char c :: nat) \<le> 57
      then leading_digits cs (acc * 10 + (int (of_char c) - 48))
      else acc)"

text \<open>
  \<open>String::toInt\<close> is \<open>atol\<close>: blanks, an optional sign, then decimal digits; the result
  saturates at the bounds of \<open>long\<close>.
\<close>

definition toInt :: "string \<Rightarrow> int" where
  "toInt s =
     (let t = dropWhile isspace s;
          v = (case t of
                 [] \<Rightarrow> 0
               | c # cs \<Rightarrow> if c = CHR ''-'' then - leading_digits cs 0
                           else if c = CHR ''+'' then leading_digits cs 0
                           else leading_digits t 0)
      in max (- (2 ^ 31)) (min (2 ^ 31 - 1) v))"

definition loop :: "string option \<Rightarrow> action" where
  "loop serial w =
     (case serial of
        None \<Rightarrow> (w, [])
      | Some line \<Rightarrow>
          (let cmd = trim line in
           if cmd = ''c'' then allNotesOff w
           else if cmd = ''major'' then setChordType MAJOR w
           else if cmd = ''minor'' then setChordType MINOR w
           else if cmd = ''aug'' then setChordType AUGMENTED w
           else if cmd = ''dim'' then setChordType DIMINISHED w
           else if cmd = ''sus4'' then setChordType SUS4 w
           else if cmd = ''7'' then setChordType SEVENTH w
           else if startsWith cmd ''arp ''
           then (w\<lparr> ARPEGGIO_DELAY := word_of_int (toInt (drop 4 cmd)) \<rparr>, [])
           else (w, [])))"

section \<open>Runs, observers and sample states\<close>

text \<open>
  A snapshot as the callback hands it on: roll, the 25 pressures, and the time at which
  it is processed. \<open>run_snapshots\<close> processes a list of them and returns the final state
  with the messages of each snapshot.
\<close>

type_synonym snapshot = "float_bits \<times> uint16 list \<times> ulong"

fun run_snapshots :: "snapshot list \<Rightarrow> world \<Rightarrow> world \<times> midi_event list list" where
  "run_snapshots [] w = (w, [])"
| "run_snapshots ((roll, pressures, now) # rest) w =
     (case on_snapshot roll pressures now w of
        (w1, e) \<Rightarrow> (case run_snapshots rest w1 of (w2, es) \<Rightarrow> (w2, e # es)))"





text \<open>Successive iterations of \<open>loop()\<close>, one serial reading each.\<close>

fun run_loop :: "string option list \<Rightarrow> action" where
  "run_loop [] = skip"
| "run_loop (serial # rest) = seq (loop serial) (run_loop rest)"

text \<open>
  Successive sustain evaluations at the given times: the final state and the messages
  of each evaluation.
\<close>

fun sustain_run :: "ulong list \<Rightarrow> world \<Rightarrow> world \<times> midi_event list list" where
  "sustain_run [] w = (w, [])"
| "sustain_run (now # rest) w =
     (case checkSustain now w of
        (w1, e) \<Rightarrow> (case sustain_run rest w1 of (w2, es) \<Rightarrow> (w2, e # es)))"

text \<open>
  The chord-stop selection as the specification words it: with the combo latch, the
  channel of slot 5 is looked at before the channel of slot 6; without it, the last of
  the channels 0 to 4 (ascending) that reads nonzero.
\<close>

definition spec_stop_selection :: "world \<Rightarrow> nat option" where
  "spec_stop_selection w =
     (if comboKeyActive w
      then (if pressure w A4_KEY \<noteq> 0 then Some 5
            else if pressure w B4_KEY \<noteq> 0 then Some 6
            else None)
      else (case filter (\<lambda>i. pressure w i \<noteq> 0) [0..<5] of
              [] \<Rightarrow> None
            | i # rest \<Rightarrow> Some (last (i # rest))))"

subsection \<open>Sample data\<close>

text \<open>
  \<open>roll_60\<close> is the pattern of \<open>60.0f\<close>, above the chord-angle threshold, and the pattern
  0 is a level hand. \<open>only p i\<close> is a pressure array that reads \<open>p\<close> on channel \<open>i\<close> and
  zero elsewhere. \<open>held_world p\<close> is the initial state with channel 0 at \<open>p\<close>.
\<close>

definition roll_60 :: float_bits where
  "roll_60 = 0x42700000"

definition only :: "uint16 \<Rightarrow> nat \<Rightarrow> uint16 list" where
  "only p i = (replicate 25 0)[i := p]"


text \<open>
  The state just after the first snapshot of a performance, taken at time 1000 with
  channel 0 pressed at 200 and the hand rolled: the C chord has been triggered.
\<close>

definition after_trigger_world :: world where
  "after_trigger_world = fst (on_snapshot roll_60 (only 200 0) 1000 initial_world)"

text \<open>Channel 0 held at 200 with the hand rolled, seen every 300 ms.\<close>

definition held_snapshots :: "snapshot list" where
  "held_snapshots = map (\<lambda>t. (roll_60, only 200 0, t)) [1000, 1300, 1600, 1900, 2200]"


text \<open>
  Combo play with a level hand: the combo key (channel 15) with the B key (channel 2),
  then the combo key with the A key (channel 1).
\<close>

definition combo_b_snapshot :: snapshot where
  "combo_b_snapshot = (0, (only 100 15)[2 := 100], 1000)"

definition combo_a_snapshot :: snapshot where
  "combo_a_snapshot = (0, (only 100 15)[1 := 100], 1100)"

text \<open>
  A combo chord started with the hand rolled, so that its arpeggio sounds a note, and
  then the whole hand lifted and levelled: the state in which a disconnection finds
  the controller.
\<close>

definition combo_lifted_world :: world where
  "combo_lifted_world =
     fst (run_snapshots [(roll_60, (only 100 15)[1 := 100], 1000), (0, replicate 25 0, 1100)]
            initial_world)"

text \<open>
  A state in the middle of a performance: the C chord of slot 0 is active and sustained,
  the arpeggio is at step 2, and channel 0 is still pressed.
\<close>

definition chord_sounding_world :: world where
  "chord_sounding_world =
     initial_world\<lparr> currentArpeggioStep := 2, lastArpeggioTime := 1000,
        currentChord := (currentChord initial_world)\<lparr> rootNote := 60, thirdNote := 64,
           fifthNote := 67, active := True, lastPressTime := 500 \<rparr>,
        notesActive := (replicate 7 False)[0 := True],
        pressureData := only 200 0,
        currentRoll := roll_60, sustainActive := True \<rparr>"

text \<open>
  The same state once the finger has left the sensor and slot 0 has been released, as
  \<open>handleSingleNotes\<close> reaches it before it stops the chord: every channel reads zero.
\<close>

definition chord_lifted_world :: world where
  "chord_lifted_world =
     chord_sounding_world\<lparr> pressureData := replicate 25 0, notesActive := replicate 7 False \<rparr>"

text \<open>The same state with the chord over, and with the chord retriggered at time 5000.\<close>

definition chord_ended_world :: world where
  "chord_ended_world =
     chord_sounding_world\<lparr> currentChord := (currentChord chord_sounding_world)\<lparr> active := False \<rparr> \<rparr>"

definition retriggered_world :: world where
  "retriggered_world =
     chord_sounding_world\<lparr> currentChord := (currentChord chord_sounding_world)\<lparr> lastPressTime := 5000 \<rparr> \<rparr>"

text \<open>
  Two states in which the active chord is about to be stopped while light residual
  pressures remain: channels 1 and 3 without the combo latch, channels 1 and 2 with it.
\<close>

definition residual_single_world :: world where
  "residual_single_world = chord_sounding_world\<lparr> pressureData := (only 30 1)[3 := 10] \<rparr>"

definition residual_combo_world :: world where
  "residual_combo_world =
     chord_sounding_world\<lparr> pressureData := (only 30 1)[2 := 10], comboKeyActive := True \<rparr>"

section \<open>Basic facts\<close>

lemma fst_seq: "fst (seq f g w) = fst (g (fst (f w)))"
  by (simp add: seq_def split: prod.splits)

lemma snd_seq: "snd (seq f g w) = snd (f w) @ snd (g (fst (f w)))"
  by (simp add: seq_def split: prod.splits)

lemma update_same: "xs ! j = b \<Longrightarrow> xs[j := b] = xs"
  using list_update_id [of xs j] by simp

lemma pressure_nonneg: "0 \<le> pressure w i"
  by (simp add: pressure_def)

lemma pressure_pos_iff: "pressure w i > 0 \<longleftrightarrow> pressure w i \<noteq> 0"
  using pressure_nonneg [of w i] by linarith


text \<open>The phases of one snapshot, and the unfolding of a run.\<close>

lemma on_snapshot_phases:
  "snd (on_snapshot roll ps now w) =
     snd (checkComboKeys now (fst (updateSensorData roll ps w))) @
     snd (seq (handleChordPlayback now) (checkSustain now)
            (fst (checkComboKeys now (fst (updateSensorData roll ps w)))))"
  "fst (on_snapshot roll ps now w) =
     fst (seq (handleChordPlayback now) (checkSustain now)
            (fst (checkComboKeys now (fst (updateSensorData roll ps w)))))"
  by (simp_all add: on_snapshot_def handleControls_def fst_seq snd_seq updateSensorData_def)



subsection \<open>What each action does to the note flags and to the stored pressures\<close>

lemma na_playNote: "notesActive (fst (playNote j v w)) = (notesActive w)[j := True]"
  by (simp add: playNote_def update_same)

lemma na_releaseNote: "notesActive (fst (releaseNote j w)) = (notesActive w)[j := False]"
  by (simp add: releaseNote_def update_same)

lemma na_stopCurrentChord: "notesActive (fst (stopCurrentChord w)) = notesActive w"
  by (simp add: stopCurrentChord_def Let_def)

lemma na_updateChordNotes: "notesActive (fst (updateChordNotes w)) = notesActive w"
  by (simp add: updateChordNotes_def Let_def)

lemma na_triggerChord: "notesActive (fst (triggerChord i now w)) = notesActive w"
  by (simp add: triggerChord_def fst_seq na_stopCurrentChord na_updateChordNotes)

lemma na_handleChordPlayback: "notesActive (fst (handleChordPlayback now w)) = notesActive w"
  by (simp add: handleChordPlayback_def Let_def na_stopCurrentChord)

lemma na_checkSustain: "notesActive (fst (checkSustain now w)) = notesActive w"
  by (simp add: checkSustain_def Let_def)

lemma na_updateSensorData: "notesActive (fst (updateSensorData roll ps w)) = notesActive w"
  by (simp add: updateSensorData_def)

lemma pd_playNote: "pressureData (fst (playNote j v w)) = pressureData w"
  by (simp add: playNote_def)

lemma pd_releaseNote: "pressureData (fst (releaseNote j w)) = pressureData w"
  by (simp add: releaseNote_def)

lemma pd_stopCurrentChord: "pressureData (fst (stopCurrentChord w)) = pressureData w"
  by (simp add: stopCurrentChord_def Let_def)

lemma pd_updateChordNotes: "pressureData (fst (updateChordNotes w)) = pressureData w"
  by (simp add: updateChordNotes_def Let_def)

lemma pd_triggerChord: "pressureData (fst (triggerChord i now w)) = pressureData w"
  by (simp add: triggerChord_def fst_seq pd_stopCurrentChord pd_updateChordNotes)

lemma na_handleComboNotes:
  "notesActive (fst (handleComboNotes now w)) =
     (if pressure w A4_KEY > PRESSURE_THRESHOLD then (notesActive w)[5 := True, 1 := False]
      else if pressure w B4_KEY > PRESSURE_THRESHOLD then (notesActive w)[6 := True, 2 := False]
      else (notesActive w)[5 := False, 6 := False])"
  by (simp add: handleComboNotes_def Let_def fst_seq na_playNote na_releaseNote
        na_triggerChord na_stopCurrentChord update_same)

lemma na_handleSingleNote:
  "notesActive (fst (handleSingleNote now i w)) =
     (notesActive w)[i := (pressure w i > PRESSURE_THRESHOLD)]"
  by (simp add: handleSingleNote_def Let_def fst_seq na_playNote na_releaseNote
        na_triggerChord na_stopCurrentChord update_same)

lemma pd_handleSingleNote: "pressureData (fst (handleSingleNote now i w)) = pressureData w"
  by (simp add: handleSingleNote_def Let_def fst_seq pd_playNote pd_releaseNote
        pd_triggerChord pd_stopCurrentChord)

lemma na_for_each_single:
  "notesActive (fst (for_each is (handleSingleNote now) w)) =
     fold (\<lambda>i xs. xs[i := (pressure w i > PRESSURE_THRESHOLD)]) is (notesActive w)"
proof (induction "is" arbitrary: w)
  case Nil
  then show ?case by (simp add: skip_def)
next
  case (Cons i rest)
  have "pressure (fst (handleSingleNote now i w)) = pressure w"
    by (simp add: pressure_def pd_handleSingleNote fun_eq_iff)
  then show ?case
    by (simp add: fst_seq Cons.IH na_handleSingleNote)
qed

lemma nth_fold_update_other:
  "j \<notin> set is \<Longrightarrow> fold (\<lambda>i xs. xs[i := b i]) is xs ! j = xs ! j"
  by (induction "is" arbitrary: xs) auto

subsection \<open>Stopping the chord\<close>

lemma fold_last_match:
  "fold (\<lambda>i idx. if P i then int i else idx) xs a =
     (case filter P xs of [] \<Rightarrow> a | y # ys \<Rightarrow> int (last (y # ys)))"
  by (induction xs arbitrary: a) (auto split: list.splits)

lemma stop_chordIndex_spec:
  "stop_chordIndex w = (case spec_stop_selection w of None \<Rightarrow> -1 | Some k \<Rightarrow> int k)"
  by (simp add: stop_chordIndex_def spec_stop_selection_def fold_last_match pressure_pos_iff
        split: list.splits)

subsection \<open>Velocity\<close>



subsection \<open>Sustain\<close>

lemma checkSustain_waiting:
  "active (currentChord w) \<Longrightarrow> \<not> sustainActive w \<Longrightarrow>
   now - lastPressTime (currentChord w) \<le> 300 \<Longrightarrow> checkSustain now w = (w, [])"
  by (simp add: checkSustain_def Let_def leD)

lemma checkSustain_asserts:
  "active (currentChord w) \<Longrightarrow> \<not> sustainActive w \<Longrightarrow>
   now - lastPressTime (currentChord w) > 300 \<Longrightarrow>
   checkSustain now w = (w\<lparr> sustainActive := True \<rparr>, [ControlChange 64 127 1])"
  by (simp add: checkSustain_def Let_def)

lemma checkSustain_holding:
  "active (currentChord w) \<Longrightarrow> sustainActive w \<Longrightarrow>
   now - lastPressTime (currentChord w) > 300 \<Longrightarrow> checkSustain now w = (w, [])"
  by (simp add: checkSustain_def Let_def)

lemma sustain_run_waiting:
  "active (currentChord w) \<Longrightarrow> \<not> sustainActive w \<Longrightarrow>
   list_all (\<lambda>t. t - lastPressTime (currentChord w) \<le> 300) early \<Longrightarrow>
   sustain_run (early @ rest) w =
     (fst (sustain_run rest w), replicate (length early) [] @ snd (sustain_run rest w))"
  by (induction early) (simp_all add: checkSustain_waiting split: prod.splits)

lemma sustain_run_holding:
  "active (currentChord w) \<Longrightarrow> sustainActive w \<Longrightarrow>
   list_all (\<lambda>t. t - lastPressTime (currentChord w) > 300) late \<Longrightarrow>
   sustain_run late w = (w, replicate (length late) [])"
  by (induction late) (simp_all add: checkSustain_holding)

subsection \<open>Reading message lists for one pitch\<close>





subsection \<open>Every action of the slot evaluation keeps track of the sounding slots\<close>

















subsection \<open>The slot evaluation leaves the stored roll alone\<close>












subsection \<open>The combo slots in one evaluation\<close>

lemma combo_slots_checkComboKeys:
  assumes "\<not> notesActive w ! 5" and "\<not> notesActive w ! 6"
  shows "\<not> (notesActive (fst (checkComboKeys now w)) ! 5 \<and>
            notesActive (fst (checkComboKeys now w)) ! 6)"
  using assms
  by (simp add: checkComboKeys_def Let_def fst_seq na_releaseNote na_handleComboNotes
        handleSingleNotes_def na_for_each_single nth_fold_update_other update_same)

section \<open>The main loop and the notification callback\<close>

text \<open>
  C1, as the specification states it, fails on the code: \<open>loop()\<close> never evaluates the
  arpeggio or the sustain. In \<open>after_trigger_world\<close> the chord was triggered at time
  1000; an evaluation at time 1400 would advance the arpeggio and assert sustain, yet
  forty iterations of the main loop send nothing and leave the state as it is.
\<close>

theorem loop_does_not_tick_counterexample:
  "snd (seq (handleChordPlayback 1400) (checkSustain 1400) after_trigger_world) =
     [NoteOff 60 0 1, NoteOn 67 100 1, ControlChange 64 127 1] \<and>
   snd (run_loop (replicate 40 None) after_trigger_world) = [] \<and>
   fst (run_loop (replicate 40 None) after_trigger_world) = after_trigger_world"
  by code_simp

text \<open>
  C1 (amended): arpeggio and sustain are evaluated only while a snapshot is processed.
  Any number of iterations of the main loop without serial input sends no message and
  leaves the whole controller state unchanged.
\<close>

theorem run_loop_idle: "run_loop (replicate n None) w = (w, [])"
  by (induction n) (simp_all add: skip_def seq_def loop_def)

text \<open>
  C9: a payload shorter than 66 bytes, or whose first two bytes are not 0xAB 0xCD, is
  dropped: the callback returns the state it was given, with pressures, roll, note
  flags, chord and sustain as they were, and sends no message. There is no error value
  to return.
\<close>

theorem notify_discards_malformed:
  "length pData < 66 \<or> pData ! 0 \<noteq> 0xAB \<or> pData ! 1 \<noteq> 0xCD \<Longrightarrow>
   notify pData now w = (w, [])"
  by (simp add: notify_def)

theorem notify_discards_malformed_witness:
  "notify (0xAB # 0x00 # replicate 64 0xFF) 5000 chord_sounding_world = (chord_sounding_world, []) \<and>
   notify [0xAB, 0xCD, 0x00] 5000 chord_sounding_world = (chord_sounding_world, [])"
  using notify_discards_malformed [of "0xAB # 0x00 # replicate 64 0xFF" 5000 chord_sounding_world]
        notify_discards_malformed [of "[0xAB, 0xCD, 0x00]" 5000 chord_sounding_world]
  by simp

section \<open>Note slots\<close>

text \<open>
  C2, as stated, fails on the code: triggering slot 5 does not release slot 6. After the
  combo key with the B key, then the combo key with the A key, both flags are set.
\<close>

theorem combo_slots_both_active_counterexample:
  "notesActive (fst (run_snapshots [combo_b_snapshot, combo_a_snapshot] initial_world)) =
     [False, False, False, False, False, True, True]"
  by code_simp

text \<open>
  C2 (amended): one snapshot-processing step never activates both combo-gated slots: if
  slots 5 and 6 are both active after the step, then at least one of them was active
  before it.
\<close>

theorem combo_slots_not_both_triggered:
  "notesActive (fst (on_snapshot roll pressures now w)) ! 5 \<and>
   notesActive (fst (on_snapshot roll pressures now w)) ! 6 \<Longrightarrow>
   notesActive w ! 5 \<or> notesActive w ! 6"
  using combo_slots_checkComboKeys [of "fst (updateSensorData roll pressures w)" now]
  by (auto simp: on_snapshot_def handleControls_def fst_seq na_handleChordPlayback
        na_checkSustain na_updateSensorData)

theorem combo_slots_not_both_triggered_witness:
  "notesActive (fst (on_snapshot 0 ((only 100 15)[1 := 100]) 1100
      (fst (run_snapshots [combo_b_snapshot] initial_world)))) ! 5 \<and>
   notesActive (fst (on_snapshot 0 ((only 100 15)[1 := 100]) 1100
      (fst (run_snapshots [combo_b_snapshot] initial_world)))) ! 6 \<and>
   (notesActive (fst (run_snapshots [combo_b_snapshot] initial_world)) ! 5 \<or>
    notesActive (fst (run_snapshots [combo_b_snapshot] initial_world)) ! 6)"
proof -
  have after: "notesActive (fst (on_snapshot 0 ((only 100 15)[1 := 100]) 1100
      (fst (run_snapshots [combo_b_snapshot] initial_world)))) ! 5 \<and>
   notesActive (fst (on_snapshot 0 ((only 100 15)[1 := 100]) 1100
      (fst (run_snapshots [combo_b_snapshot] initial_world)))) ! 6"
    by code_simp
  from combo_slots_not_both_triggered [OF after] after show ?thesis by simp
qed




section \<open>Velocity\<close>




section \<open>Arpeggio\<close>

text \<open>
  C3 asks for a note-off of the previous step's pitch on every step but the first, the
  steps after a wrap included. The code tests \<open>currentArpeggioStep > 0\<close>, so the step
  that follows the wrap sends none. With channel 0 held and the hand rolled, the fifth
  snapshot restarts the sequence with note-on 60 and no note-off for pitch 76, which
  the fourth one had started.
\<close>

theorem arpeggio_wrap_leaves_last_note:
  "snd (run_snapshots held_snapshots initial_world) =
     [[NoteOn 60 79 1, NoteOn 60 100 1],
      [NoteOff 60 0 1, NoteOn 67 100 1],
      [NoteOff 67 0 1, NoteOn 72 100 1, ControlChange 64 127 1],
      [NoteOff 72 0 1, NoteOn 76 100 1],
      [NoteOn 60 100 1]]"
  by code_simp

section \<open>Sustain\<close>

text \<open>
  C6: with a chord active since its trigger at \<open>lastPressTime\<close> and sustain not asserted,
  the evaluations made while no more than 300 ms have elapsed send nothing, the first
  one made after more than 300 ms sends control change 64 with value 127 and sets the
  sustain flag, and the later ones send nothing more. An evaluation that finds sustain
  asserted and the chord inactive, or the chord retriggered no more than 300 ms ago,
  sends control change 64 with value 0 and clears the flag. With no chord and no
  sustain nothing is sent.
\<close>

theorem checkSustain_timing:
  "(active (currentChord w) \<and> \<not> sustainActive w \<and>
    list_all (\<lambda>t. t - lastPressTime (currentChord w) \<le> 300) early \<and>
    now - lastPressTime (currentChord w) > 300 \<and>
    list_all (\<lambda>t. t - lastPressTime (currentChord w) > 300) late \<longrightarrow>
      sustain_run (early @ now # late) w =
        (w\<lparr> sustainActive := True \<rparr>,
         replicate (length early) [] @ [ControlChange 64 127 1] # replicate (length late) [])) \<and>
   (\<not> active (currentChord w) \<and> sustainActive w \<longrightarrow>
      checkSustain now w = (w\<lparr> sustainActive := False \<rparr>, [ControlChange 64 0 1])) \<and>
   (active (currentChord w) \<and> sustainActive w \<and>
    now - lastPressTime (currentChord w) \<le> 300 \<longrightarrow>
      checkSustain now w = (w\<lparr> sustainActive := False \<rparr>, [ControlChange 64 0 1])) \<and>
   (\<not> active (currentChord w) \<and> \<not> sustainActive w \<longrightarrow> checkSustain now w = (w, []))"
proof -
  have run: "sustain_run (early @ now # late) w =
        (w\<lparr> sustainActive := True \<rparr>,
         replicate (length early) [] @ [ControlChange 64 127 1] # replicate (length late) [])"
    if a: "active (currentChord w)" and s: "\<not> sustainActive w"
      and e: "list_all (\<lambda>t. t - lastPressTime (currentChord w) \<le> 300) early"
      and n: "now - lastPressTime (currentChord w) > 300"
      and l: "list_all (\<lambda>t. t - lastPressTime (currentChord w) > 300) late"
  proof -
    from a l have "sustain_run late (w\<lparr> sustainActive := True \<rparr>) =
        (w\<lparr> sustainActive := True \<rparr>, replicate (length late) [])"
      by (intro sustain_run_holding) simp_all
    with a s n have "sustain_run (now # late) w =
        (w\<lparr> sustainActive := True \<rparr>, [ControlChange 64 127 1] # replicate (length late) [])"
      by (simp add: checkSustain_asserts)
    with a s e show ?thesis
      by (simp add: sustain_run_waiting)
  qed
  have off: "checkSustain now w = (w\<lparr> sustainActive := False \<rparr>, [ControlChange 64 0 1])"
    if "sustainActive w"
      and "\<not> active (currentChord w) \<or> now - lastPressTime (currentChord w) \<le> 300"
    using that by (auto simp: checkSustain_def Let_def leD)
  have idle: "checkSustain now w = (w, [])"
    if "\<not> active (currentChord w)" and "\<not> sustainActive w"
    using that by (simp add: checkSustain_def)
  from run off idle show ?thesis by blast
qed

theorem checkSustain_timing_witness:
  "sustain_run ([1010, 1150, 1300] @ 1301 # [1600, 9000]) after_trigger_world =
     (after_trigger_world\<lparr> sustainActive := True \<rparr>,
      [[], [], [], [ControlChange 64 127 1], [], []]) \<and>
   checkSustain 5000 chord_ended_world =
     (chord_ended_world\<lparr> sustainActive := False \<rparr>, [ControlChange 64 0 1]) \<and>
   checkSustain 5010 retriggered_world =
     (retriggered_world\<lparr> sustainActive := False \<rparr>, [ControlChange 64 0 1]) \<and>
   checkSustain 5000 initial_world = (initial_world, [])"
proof -
  have t: "active (currentChord after_trigger_world)" "\<not> sustainActive after_trigger_world"
    "lastPressTime (currentChord after_trigger_world) = 1000"
    by code_simp+
  have e: "\<not> active (currentChord chord_ended_world)" "sustainActive chord_ended_world"
    by (simp_all add: chord_ended_world_def chord_sounding_world_def initial_world_def)
  have r: "active (currentChord retriggered_world)" "sustainActive retriggered_world"
    "lastPressTime (currentChord retriggered_world) = 5000"
    by (simp_all add: retriggered_world_def chord_sounding_world_def initial_world_def)
  have i: "\<not> active (currentChord initial_world)" "\<not> sustainActive initial_world"
    by (simp_all add: initial_world_def)
  show ?thesis
    using checkSustain_timing [of after_trigger_world "[1010, 1150, 1300]" 1301 "[1600, 9000]"]
      checkSustain_timing [of chord_ended_world "[]" 5000 "[]"]
      checkSustain_timing [of retriggered_world "[]" 5010 "[]"]
      checkSustain_timing [of initial_world "[]" 5000 "[]"]
    by (simp add: t e r i)
qed

section \<open>Stopping the chord and silencing everything\<close>

text \<open>
  C5: when an active chord is stopped, the note-offs sent are those of the chord set
  selected as the specification words it (\<open>spec_stop_selection\<close>): slot 5 before slot 6
  under the combo latch, otherwise the last nonzero channel among 0 to 4; nothing is
  sent when no channel is selected.
\<close>

theorem stopCurrentChord_note_set:
  "active (currentChord w) \<Longrightarrow>
   snd (stopCurrentChord w) =
     (case spec_stop_selection w of
        None \<Rightarrow> []
      | Some k \<Rightarrow> map (\<lambda>n. NoteOff n 0 1) (CUSTOM_CHORDS ! k))"
  by (simp add: stopCurrentChord_def stop_chordIndex_spec split: option.splits)

theorem stopCurrentChord_note_set_witness:
  "active (currentChord residual_single_world) \<and>
   snd (stopCurrentChord residual_single_world) =
     [NoteOff 53 0 1, NoteOff 60 0 1, NoteOff 65 0 1, NoteOff 69 0 1] \<and>
   active (currentChord residual_combo_world) \<and>
   snd (stopCurrentChord residual_combo_world) =
     [NoteOff 57 0 1, NoteOff 64 0 1, NoteOff 69 0 1, NoteOff 72 0 1]"
proof -
  have a1: "active (currentChord residual_single_world)" by code_simp
  have a2: "active (currentChord residual_combo_world)" by code_simp
  have s1: "spec_stop_selection residual_single_world = Some 3" by code_simp
  have s2: "spec_stop_selection residual_combo_world = Some 5" by code_simp
  have c: "CUSTOM_CHORDS ! 3 = [53, 60, 65, 69]" "CUSTOM_CHORDS ! 5 = [57, 64, 69, 72]"
    by code_simp+
  show ?thesis
    using stopCurrentChord_note_set [OF a1] stopCurrentChord_note_set [OF a2]
    by (simp add: a1 a2 s1 s2 c)
qed

text \<open>
  C10: when the chord is stopped while every scanned channel reads zero (channels 1 and
  2 under the combo latch, channels 0 to 4 otherwise), the chord is marked inactive and
  the arpeggio cursor returns to 0, but no note-off is sent, so whatever chord note was
  sounding keeps sounding.
\<close>

theorem stopCurrentChord_all_zero_silent:
  assumes "active (currentChord w)"
    and "if comboKeyActive w then pressure w A4_KEY = 0 \<and> pressure w B4_KEY = 0
         else list_all (\<lambda>i. pressure w i = 0) [0..<5]"
  shows "stopCurrentChord w =
           (w\<lparr> currentArpeggioStep := 0,
               currentChord := (currentChord w)\<lparr> active := False \<rparr> \<rparr>, [])"
  using assms
  by (simp add: stopCurrentChord_def stop_chordIndex_def upt_rec split: if_splits)

theorem stopCurrentChord_all_zero_silent_witness:
  "active (currentChord chord_lifted_world) \<and> currentArpeggioStep chord_lifted_world = 2 \<and>
   stopCurrentChord chord_lifted_world =
     (chord_lifted_world\<lparr> currentArpeggioStep := 0,
         currentChord := (currentChord chord_lifted_world)\<lparr> active := False \<rparr> \<rparr>, [])"
  using stopCurrentChord_all_zero_silent [of chord_lifted_world]
  by (simp add: chord_lifted_world_def chord_sounding_world_def initial_world_def pressure_def upt_rec)

text \<open>
  C4 asks \<open>allNotesOff\<close> to release the note set of the active chord. The code looks
  for that set among the stored pressures (under the comments "Identify last active
  chord" and "Turn off all chord notes") and finds none when they all read zero. In
  \<open>combo_lifted_world\<close>, reached by two snapshots, the combo chord is active and its
  arpeggio has started pitch 57; \<open>allNotesOff\<close>, called on disconnection or by the
  serial command \<open>c\<close>, then sends nothing, and pitch 57 is never released.
\<close>

theorem allNotesOff_leaves_chord_note:
  "snd (run_snapshots [(roll_60, (only 100 15)[1 := 100], 1000), (0, replicate 25 0, 1100)]
          initial_world) =
     [[NoteOn 69 73 1, NoteOn 57 100 1], [NoteOff 69 0 1]] \<and>
   active (currentChord combo_lifted_world) \<and>
   snd (allNotesOff combo_lifted_world) = [] \<and>
   snd (loop (Some ''c'') combo_lifted_world) = [] \<and>
   \<not> active (currentChord (fst (allNotesOff combo_lifted_world)))"
  by code_simp

end
